theory Spec2Isabelle
  imports Main
begin

section \<open>Python values\<close>

text \<open>
  The values that travel through the tool wrappers of \<^verbatim>\<open>agent_setup.py\<close>: the
  parameter mapping (a dict whose keys are strings, in insertion order), the value
  \<^verbatim>\<open>None\<close>, and whatever a connector returns. Floating point numbers are left out.
\<close>

datatype pyval =
    PNone
  | PBool bool
  | PInt int
  | PStr string
  | PList "pyval list"
  | PDict "(string \<times> pyval) list"

text \<open>Python's truth value testing, which decides \<^verbatim>\<open>params or {}\<close>.\<close>

fun truthy :: "pyval \<Rightarrow> bool" where
  "truthy PNone = False"
| "truthy (PBool b) = b"
| "truthy (PInt i) = (i \<noteq> 0)"
| "truthy (PStr s) = (s \<noteq> [])"
| "truthy (PList xs) = (xs \<noteq> [])"
| "truthy (PDict kvs) = (kvs \<noteq> [])"

text \<open>\<^verbatim>\<open>a or b\<close>: the left operand when it is true, the right one otherwise.\<close>

definition py_or :: "pyval \<Rightarrow> pyval \<Rightarrow> pyval" where
  "py_or a b = (if truthy a then a else b)"

section \<open>Paths, text and the file system\<close>

text \<open>
  A path is the list of its components; a text (a Python \<^verbatim>\<open>str\<close>) is the list of its
  Unicode code points. The file system maps the path of each readable file to its decoded
  text; a path outside its domain names no file.
\<close>

type_synonym path = "string list"
type_synonym ustr = "nat list"
type_synonym filesystem = "path \<rightharpoonup> ustr"

datatype exn =
    FileNotFoundError path
  | ConnectorError string
  | TracingError string

text \<open>\<^verbatim>\<open>Path.parent\<close> and the \<^verbatim>\<open>/\<close> operator of pathlib.\<close>

definition parent :: "path \<Rightarrow> path" where
  "parent p = butlast p"

definition joinpath :: "path \<Rightarrow> string \<Rightarrow> path" where
  "joinpath p name = p @ [name]"

text \<open>\<^verbatim>\<open>Path.read_text\<close>: the text of the file, or FileNotFoundError when there is none.\<close>

definition read_text :: "filesystem \<Rightarrow> path \<Rightarrow> exn + ustr" where
  "read_text fs p = (case fs p of None \<Rightarrow> Inl (FileNotFoundError p) | Some t \<Rightarrow> Inr t)"

text \<open>
  \<^verbatim>\<open>str.isspace\<close> on one code point: the characters CPython's \<^verbatim>\<open>str.strip()\<close> removes
  (tab to carriage return, the four separators below the space, the space, NEL, the
  no-break space and the Unicode space separators).
\<close>

definition isspace :: "nat \<Rightarrow> bool" where
  "isspace c \<longleftrightarrow>
     (9 \<le> c \<and> c \<le> 13) \<or> (28 \<le> c \<and> c \<le> 32) \<or> c = 133 \<or> c = 160 \<or> c = 5760 \<or>
     (8192 \<le> c \<and> c \<le> 8202) \<or> c = 8232 \<or> c = 8233 \<or> c = 8239 \<or> c = 8287 \<or> c = 12288"

text \<open>\<^verbatim>\<open>str.strip()\<close>: drop the whitespace at the left end, then at the right end.\<close>

definition strip :: "ustr \<Rightarrow> ustr" where
  "strip s = rev (dropWhile isspace (rev (dropWhile isspace s)))"

text \<open>
  The spec's words for the same thing, "the file's text with surrounding whitespace
  trimmed": \<open>r\<close> is what remains of \<open>t\<close> once a run of whitespace is cut from each end, and
  \<open>r\<close> itself neither starts nor ends with whitespace.
\<close>

definition is_trimmed_text :: "ustr \<Rightarrow> ustr \<Rightarrow> bool" where
  "is_trimmed_text t r \<longleftrightarrow>
     (\<exists>l r'. t = l @ r @ r' \<and> list_all isspace l \<and> list_all isspace r') \<and>
     (r = [] \<or> (\<not> isspace (hd r) \<and> \<not> isspace (last r)))"

section \<open>The agent framework, the connectors and tracing\<close>

text \<open>
  The world outside the module: the remote state the connectors act on, the log of the
  calls made to a connector's \<^verbatim>\<open>execute\<close>, the runs the tracing collector received, and
  the collector's fault when it is unavailable.
\<close>

datatype trace_event = RunStart string | RunEnd string

record 'x world =
  remote :: 'x
  calls :: "(nat \<times> string \<times> string \<times> pyval) list"
  runs :: "trace_event list"
  tracer_fault :: "exn option"

text \<open>
  A connector instance: its identity and the behaviour of its \<^verbatim>\<open>execute\<close> method, which
  returns a result or raises, and may change the remote state.
\<close>

record 'x connector =
  conn_id :: nat
  execute_impl :: "string \<Rightarrow> string \<Rightarrow> pyval \<Rightarrow> 'x \<Rightarrow> (exn + pyval) \<times> 'x"

text \<open>
  Modelled from the spec: the method call \<^verbatim>\<open>connector.execute(entity, action, params)\<close>
  of the vendor SDKs, whose only contract is
  \<^verbatim>\<open>execute(entity, action, params) -> result\<close>, failing with an error. The call is
  recorded in the log with the arguments it received.
\<close>

definition execute ::
  "'x connector \<Rightarrow> string \<Rightarrow> string \<Rightarrow> pyval \<Rightarrow> 'x world \<Rightarrow> (exn + pyval) \<times> 'x world" where
  "execute connector entity action params w =
     (case execute_impl connector entity action params (remote w) of
        (r, x') \<Rightarrow>
          (r, w\<lparr>remote := x',
                calls := calls w @ [(conn_id connector, entity, action, params)]\<rparr>))"

text \<open>
  A Python function object: its name, its docstring, its parameters (name, annotation,
  default) and what calling it does. The third argument of a call is \<open>None\<close> when the
  caller omits \<^verbatim>\<open>params\<close>.
\<close>

datatype doc = NoDoc | ConnectorDoc string

datatype annotation = AnnStr | AnnDictOrNone

type_synonym signature = "(string \<times> annotation \<times> pyval option) list"

type_synonym 'x tool_call =
  "string \<Rightarrow> string \<Rightarrow> pyval option \<Rightarrow> 'x world \<Rightarrow> (exn + pyval) \<times> 'x world"

record 'x pyfun =
  fname :: string
  fdoc :: doc
  fsig :: signature
  fcall :: "'x tool_call"

text \<open>
  Modelled from the spec: \<^verbatim>\<open>@traceable(name=...)\<close> of the tracing library, "invoked
  transparently around each tool call": the wrapped function reports the start of a run,
  calls the function with the same arguments, reports the end and gives the function's
  outcome back; a collector that is unavailable makes the call fail with the collector's
  error.
\<close>

definition traceable :: "string \<Rightarrow> 'x pyfun \<Rightarrow> 'x pyfun" where
  "traceable name f =
     f\<lparr>fcall := (\<lambda>entity action params_arg w.
          case tracer_fault w of
            Some e \<Rightarrow> (Inl e, w)
          | None \<Rightarrow>
              (case fcall f entity action params_arg (w\<lparr>runs := runs w @ [RunStart name]\<rparr>) of
                 (r, w') \<Rightarrow> (r, w'\<lparr>runs := runs w' @ [RunEnd name]\<rparr>)))\<rparr>"

text \<open>
  Modelled from the spec: \<^verbatim>\<open>@airbyte_description(name)\<close> of the connector SDK, the
  "annotate" step of the registration pipeline: it gives the function the description of
  the named connector as its docstring and changes nothing else.
\<close>

definition airbyte_description :: "string \<Rightarrow> 'x pyfun \<Rightarrow> 'x pyfun" where
  "airbyte_description name f = f\<lparr>fdoc := ConnectorDoc name\<rparr>"

text \<open>The agent: what its constructor was given, and the tools registered on it.\<close>

datatype model = AnthropicModel string

datatype connector_type = GongConnector | HubspotConnector

record 'x tool =
  tool_name :: string
  tool_description :: doc
  tool_signature :: signature
  tool_retries :: "nat option"
  tool_function :: "'x tool_call"

record 'x agent =
  agent_model :: model
  agent_deps_type :: "connector_type list"
  agent_system_prompt :: ustr
  agent_retries :: nat
  agent_tools :: "'x tool list"

text \<open>
  Modelled from the spec: the constructor \<^verbatim>\<open>Agent(model=, deps_type=, system_prompt=,
  retries=)\<close> of the agent framework ("construct agent with model + prompt + retry
  budget"); a new agent has no tool.
\<close>

definition Agent :: "model \<Rightarrow> connector_type list \<Rightarrow> ustr \<Rightarrow> nat \<Rightarrow> 'x agent" where
  "Agent m d p n = \<lparr>agent_model = m, agent_deps_type = d, agent_system_prompt = p, agent_retries = n,
      agent_tools = []\<rparr>"

text \<open>
  Modelled from the spec: \<^verbatim>\<open>@agent.tool_plain\<close> of the agent framework, the "register"
  step: the agent "owns tool registration"; the function becomes one more tool of the
  agent, under the function's name, docstring and parameters, with no retry budget of
  its own.
\<close>

definition tool_plain :: "'x agent \<Rightarrow> 'x pyfun \<Rightarrow> 'x agent" where
  "tool_plain a f =
     a\<lparr>agent_tools := agent_tools a @
          [\<lparr>tool_name = fname f, tool_description = fdoc f, tool_signature = fsig f,
            tool_retries = None, tool_function = fcall f\<rparr>]\<rparr>"

text \<open>The agent framework calls a tool with the arguments the model chose.\<close>

definition invoke :: "'x tool \<Rightarrow> 'x tool_call" where
  "invoke t entity action params_arg w = tool_function t entity action params_arg w"

section \<open>The module \<^verbatim>\<open>agent_setup.py\<close>\<close>

text \<open>
  \<^verbatim>\<open>_load_system_prompt\<close> (an Isabelle name cannot start with an underscore);
  \<open>module_file\<close> is the module's \<^verbatim>\<open>__file__\<close>.
\<close>

definition prompt_path :: "path \<Rightarrow> path" where
  "prompt_path module_file = joinpath (parent module_file) ''system_prompt.txt''"

definition load_system_prompt :: "path \<Rightarrow> filesystem \<Rightarrow> exn + ustr" where
  "load_system_prompt module_file fs =
     (case read_text fs (prompt_path module_file) of
        Inl e \<Rightarrow> Inl e
      | Inr t \<Rightarrow> Inr (strip t))"

definition create_agent :: "path \<Rightarrow> filesystem \<Rightarrow> exn + 'x agent" where
  "create_agent module_file fs =
     (let model = AnthropicModel ''claude-sonnet-4-5-20250929'' in
      case load_system_prompt module_file fs of
        Inl e \<Rightarrow> Inl e
      | Inr system_prompt \<Rightarrow>
          Inr (Agent model [GongConnector, HubspotConnector] system_prompt 10))"

text \<open>
  The parameters both tool functions declare:
  \<^verbatim>\<open>(entity: str, action: str, params: dict | None = None)\<close>.
\<close>

definition execute_signature :: signature where
  "execute_signature =
     [(''entity'', AnnStr, None), (''action'', AnnStr, None),
      (''params'', AnnDictOrNone, Some PNone)]"

text \<open>
  The inner functions, closures over \<open>connector\<close>. An omitted \<^verbatim>\<open>params\<close> takes its
  default \<^verbatim>\<open>None\<close>; the body is
  \<^verbatim>\<open>return await connector.execute(entity, action, params or {})\<close>.
\<close>

definition gong_execute :: "'x connector \<Rightarrow> 'x pyfun" where
  "gong_execute connector =
     \<lparr>fname = ''gong_execute'', fdoc = NoDoc, fsig = execute_signature,
      fcall = (\<lambda>entity action params_arg w.
        let params = (case params_arg of None \<Rightarrow> PNone | Some v \<Rightarrow> v) in
        execute connector entity action (py_or params (PDict [])) w)\<rparr>"

definition hubspot_execute :: "'x connector \<Rightarrow> 'x pyfun" where
  "hubspot_execute connector =
     \<lparr>fname = ''hubspot_execute'', fdoc = NoDoc, fsig = execute_signature,
      fcall = (\<lambda>entity action params_arg w.
        let params = (case params_arg of None \<Rightarrow> PNone | Some v \<Rightarrow> v) in
        execute connector entity action (py_or params (PDict [])) w)\<rparr>"

text \<open>
  The registration functions. The decorators apply bottom-up; the agent is changed in
  place, which the model renders by returning it next to the world.
\<close>

definition register_gong_tools ::
  "'x agent \<Rightarrow> 'x connector \<Rightarrow> 'x world \<Rightarrow> 'x agent \<times> 'x world" where
  "register_gong_tools agent connector w =
     (tool_plain agent
        (airbyte_description ''gong''
          (traceable ''gong_execute'' (gong_execute connector))), w)"

definition register_hubspot_tools ::
  "'x agent \<Rightarrow> 'x connector \<Rightarrow> 'x world \<Rightarrow> 'x agent \<times> 'x world" where
  "register_hubspot_tools agent connector w =
     (tool_plain agent
        (airbyte_description ''hubspot''
          (traceable ''hubspot_execute'' (hubspot_execute connector))), w)"

text \<open>The tool a registration has just put on the agent: the last one.\<close>

definition registered_tool :: "'x agent \<times> 'x world \<Rightarrow> 'x tool" where
  "registered_tool aw = last (agent_tools (fst aw))"

text \<open>
  What a traced forward to \<open>connector\<close> leaves behind: the outcome of the connector's
  \<^verbatim>\<open>execute\<close> on the arguments, its new remote state, one more entry in the call log and
  the two events of the run \<open>name\<close>.
\<close>

definition forwarded ::
  "string \<Rightarrow> 'x connector \<Rightarrow> string \<Rightarrow> string \<Rightarrow> pyval \<Rightarrow> 'x world \<Rightarrow> (exn + pyval) \<times> 'x world" where
  "forwarded name connector entity action params w =
     (fst (execute_impl connector entity action params (remote w)),
      w\<lparr>remote := snd (execute_impl connector entity action params (remote w)),
        calls := calls w @ [(conn_id connector, entity, action, params)],
        runs := runs w @ [RunStart name, RunEnd name]\<rparr>)"

section \<open>Fixtures\<close>

text \<open>
  Concrete collaborators on which the theorems below are run: a connector that answers
  with what it was asked and counts its calls in the remote state, a connector whose
  every call fails, a world in which nothing has happened yet, one whose tracing
  collector is down, and a module directory with and without its prompt file.
\<close>

definition echo_connector :: "nat \<Rightarrow> nat connector" where
  "echo_connector i =
     \<lparr>conn_id = i,
      execute_impl = (\<lambda>entity action params x.
        (Inr (PList [PStr entity, PStr action, params]), Suc x))\<rparr>"

definition failing_connector :: "nat \<Rightarrow> nat connector" where
  "failing_connector i =
     \<lparr>conn_id = i,
      execute_impl = (\<lambda>entity action params x. (Inl (ConnectorError entity), x))\<rparr>"

definition idle_world :: "nat world" where
  "idle_world = \<lparr>remote = 0, calls = [], runs = [], tracer_fault = None\<rparr>"

definition untraced_world :: "nat world" where
  "untraced_world =
     \<lparr>remote = 0, calls = [], runs = [], tracer_fault = Some (TracingError ''unavailable'')\<rparr>"

definition module_file :: path where
  "module_file = [''app'', ''src'', ''agent_setup.py'']"

definition fs_with_prompt :: "ustr \<Rightarrow> filesystem" where
  "fs_with_prompt t = [[''app'', ''src'', ''system_prompt.txt''] \<mapsto> t]"

definition fs_without_prompt :: filesystem where
  "fs_without_prompt = [[''app'', ''src'', ''agent_setup.py''] \<mapsto> [35, 10]]"

definition bare_agent :: "nat agent" where
  "bare_agent =
     Agent (AnthropicModel ''claude-sonnet-4-5-20250929'') [GongConnector, HubspotConnector]
       [72, 105] 10"

section \<open>Calling a registered tool\<close>

lemma py_or_dict: "py_or (PDict kvs) (PDict []) = PDict kvs"
  by (cases kvs) (simp_all add: py_or_def)

lemma py_or_none: "py_or PNone (PDict []) = PDict []"
  by (simp add: py_or_def)

lemma invoke_gong:
  "invoke (registered_tool (register_gong_tools a c w0)) entity action arg w =
     (case tracer_fault w of
        Some e \<Rightarrow> (Inl e, w)
      | None \<Rightarrow>
          forwarded ''gong_execute'' c entity action
            (py_or (case arg of None \<Rightarrow> PNone | Some v \<Rightarrow> v) (PDict [])) w)"
  by (simp add: invoke_def registered_tool_def register_gong_tools_def tool_plain_def
      airbyte_description_def traceable_def gong_execute_def execute_def forwarded_def
      split: option.split prod.split)

lemma invoke_hubspot:
  "invoke (registered_tool (register_hubspot_tools a c w0)) entity action arg w =
     (case tracer_fault w of
        Some e \<Rightarrow> (Inl e, w)
      | None \<Rightarrow>
          forwarded ''hubspot_execute'' c entity action
            (py_or (case arg of None \<Rightarrow> PNone | Some v \<Rightarrow> v) (PDict [])) w)"
  by (simp add: invoke_def registered_tool_def register_hubspot_tools_def tool_plain_def
      airbyte_description_def traceable_def hubspot_execute_def execute_def forwarded_def
      split: option.split prod.split)

lemma py_or_not_none: "py_or v (PDict []) \<noteq> PNone"
  by (cases v) (auto simp: py_or_def)

lemma registered_gong_tool:
  "registered_tool (register_gong_tools a c w0) =
     \<lparr>tool_name = ''gong_execute'', tool_description = ConnectorDoc ''gong'',
      tool_signature = execute_signature, tool_retries = None,
      tool_function = fcall (traceable ''gong_execute'' (gong_execute c))\<rparr>"
  by (simp add: registered_tool_def register_gong_tools_def tool_plain_def
      airbyte_description_def traceable_def gong_execute_def)

lemma registered_hubspot_tool:
  "registered_tool (register_hubspot_tools a c w0) =
     \<lparr>tool_name = ''hubspot_execute'', tool_description = ConnectorDoc ''hubspot'',
      tool_signature = execute_signature, tool_retries = None,
      tool_function = fcall (traceable ''hubspot_execute'' (hubspot_execute c))\<rparr>"
  by (simp add: registered_tool_def register_hubspot_tools_def tool_plain_def
      airbyte_description_def traceable_def hubspot_execute_def)

lemma register_gong_appends:
  "register_gong_tools a c w0 =
     (a\<lparr>agent_tools := agent_tools a @ [registered_tool (register_gong_tools a c w0)]\<rparr>, w0)"
  by (simp add: registered_tool_def register_gong_tools_def tool_plain_def)

lemma register_hubspot_appends:
  "register_hubspot_tools a c w0 =
     (a\<lparr>agent_tools := agent_tools a @ [registered_tool (register_hubspot_tools a c w0)]\<rparr>, w0)"
  by (simp add: registered_tool_def register_hubspot_tools_def tool_plain_def)

section \<open>Trimming\<close>

lemma strip_decompose:
  "t = takeWhile isspace t @ strip t @ rev (takeWhile isspace (rev (dropWhile isspace t)))"
proof -
  let ?u = "dropWhile isspace t"
  have "strip t @ rev (takeWhile isspace (rev ?u))
          = rev (takeWhile isspace (rev ?u) @ dropWhile isspace (rev ?u))"
    by (simp only: strip_def rev_append)
  also have "\<dots> = ?u"
    by simp
  finally have "?u = strip t @ rev (takeWhile isspace (rev ?u))"
    by (rule sym)
  moreover have "t = takeWhile isspace t @ ?u"
    by simp
  ultimately show ?thesis
    by metis
qed

lemma strip_last: "strip t \<noteq> [] \<Longrightarrow> \<not> isspace (last (strip t))"
  unfolding strip_def using hd_dropWhile [of isspace "rev (dropWhile isspace t)"]
  by (simp add: last_rev)

lemma strip_hd: "strip t \<noteq> [] \<Longrightarrow> \<not> isspace (hd (strip t))"
proof -
  assume ne: "strip t \<noteq> []"
  let ?u = "dropWhile isspace t"
  have u: "?u = strip t @ rev (takeWhile isspace (rev ?u))"
    using strip_decompose [of t] by (metis same_append_eq takeWhile_dropWhile_id)
  then have "hd ?u = hd (strip t)"
    using ne by (metis hd_append2)
  moreover have "?u \<noteq> []"
    using u ne by (metis append_is_Nil_conv)
  ultimately show ?thesis
    using hd_dropWhile [of isspace t] by simp
qed

lemma strip_is_trimmed: "is_trimmed_text t (strip t)"
  unfolding is_trimmed_text_def
proof (intro conjI exI)
  show "t = takeWhile isspace t @ strip t @ rev (takeWhile isspace (rev (dropWhile isspace t)))"
    by (rule strip_decompose)
  show "list_all isspace (takeWhile isspace t)"
    by (auto simp: list_all_iff dest: set_takeWhileD)
  show "list_all isspace (rev (takeWhile isspace (rev (dropWhile isspace t))))"
    by (auto simp: list_all_iff dest: set_takeWhileD)
  show "strip t = [] \<or> \<not> isspace (hd (strip t)) \<and> \<not> isspace (last (strip t))"
    using strip_hd strip_last by blast
qed

lemma strip_framed:
  assumes "list_all isspace l" and "list_all isspace r'"
    and "r = [] \<or> (\<not> isspace (hd r) \<and> \<not> isspace (last r))"
  shows "strip (l @ r @ r') = r"
proof (cases "r = []")
  case True
  have d: "dropWhile isspace (l @ r') = []"
    using assms(1,2) by (simp add: list_all_iff)
  show ?thesis
    unfolding True strip_def by (simp only: append_Nil d rev.simps dropWhile.simps)
next
  case False
  then obtain x xs where r: "r = x # xs"
    by (cases r) auto
  then have x: "\<not> isspace x"
    using assms(3) by simp
  from False obtain ys y where r': "r = ys @ [y]"
    by (metis rev_exhaust)
  then have y: "\<not> isspace y"
    using assms(3) by simp
  have "dropWhile isspace (l @ r @ r') = r @ r'"
    using assms(1) x r by (simp add: list_all_iff dropWhile_append)
  moreover have "dropWhile isspace (rev (r @ r')) = rev r"
    using assms(2) y r' by (simp add: list_all_iff dropWhile_append)
  ultimately show ?thesis
    by (simp add: strip_def)
qed

lemma trimmed_unique: "is_trimmed_text t r \<Longrightarrow> r = strip t"
  unfolding is_trimmed_text_def using strip_framed by metis

section \<open>The tool functions forward to the connector\<close>

text \<open>
  C1. For every entity, action and parameter mapping, calling the tool that
  \<^verbatim>\<open>register_gong_tools\<close> or \<^verbatim>\<open>register_hubspot_tools\<close> registered (and calling
  \<^verbatim>\<open>gong_execute\<close> or \<^verbatim>\<open>hubspot_execute\<close> itself) calls \<^verbatim>\<open>execute\<close> of the connector it
  was registered with exactly once, with that entity, that action and that mapping, and
  gives back the outcome of that call; when \<^verbatim>\<open>params\<close> is omitted, \<^verbatim>\<open>execute\<close> receives
  the empty mapping. The registered tool is traced, so for it the tracing collector is
  taken to be available.
\<close>

theorem tool_forwards_arguments_and_result:
  "tracer_fault w = None \<Longrightarrow>
     invoke (registered_tool (register_gong_tools a c w0)) entity action (Some (PDict kvs)) w
       = forwarded ''gong_execute'' c entity action (PDict kvs) w
   \<and> invoke (registered_tool (register_gong_tools a c w0)) entity action None w
       = forwarded ''gong_execute'' c entity action (PDict []) w
   \<and> invoke (registered_tool (register_hubspot_tools a c w0)) entity action (Some (PDict kvs)) w
       = forwarded ''hubspot_execute'' c entity action (PDict kvs) w
   \<and> invoke (registered_tool (register_hubspot_tools a c w0)) entity action None w
       = forwarded ''hubspot_execute'' c entity action (PDict []) w
   \<and> fcall (gong_execute c) entity action (Some (PDict kvs)) w
       = execute c entity action (PDict kvs) w
   \<and> fcall (gong_execute c) entity action None w = execute c entity action (PDict []) w
   \<and> fcall (hubspot_execute c) entity action (Some (PDict kvs)) w
       = execute c entity action (PDict kvs) w
   \<and> fcall (hubspot_execute c) entity action None w = execute c entity action (PDict []) w
   \<and> fst (execute c entity action (PDict kvs) w)
       = fst (execute_impl c entity action (PDict kvs) (remote w))
   \<and> calls (snd (execute c entity action (PDict kvs) w))
       = calls w @ [(conn_id c, entity, action, PDict kvs)]"
  by (simp add: invoke_gong invoke_hubspot py_or_dict py_or_none gong_execute_def
      hubspot_execute_def execute_def split: prod.split)

theorem tool_forwards_arguments_and_result_witness:
  "tracer_fault idle_world = None
   \<and> invoke (registered_tool (register_gong_tools bare_agent (echo_connector 7) idle_world))
       ''calls'' ''list'' (Some (PDict [(''limit'', PInt 5)])) idle_world
     = (Inr (PList [PStr ''calls'', PStr ''list'', PDict [(''limit'', PInt 5)]]),
        \<lparr>remote = 1,
         calls = [(7, ''calls'', ''list'', PDict [(''limit'', PInt 5)])],
         runs = [RunStart ''gong_execute'', RunEnd ''gong_execute''],
         tracer_fault = None\<rparr>)
   \<and> invoke (registered_tool (register_hubspot_tools bare_agent (echo_connector 8) idle_world))
       ''contacts'' ''list'' None idle_world
     = (Inr (PList [PStr ''contacts'', PStr ''list'', PDict []]),
        \<lparr>remote = 1,
         calls = [(8, ''contacts'', ''list'', PDict [])],
         runs = [RunStart ''hubspot_execute'', RunEnd ''hubspot_execute''],
         tracer_fault = None\<rparr>)"
proof -
  have up: "tracer_fault idle_world = None"
    by (simp add: idle_world_def)
  have gong:
    "forwarded ''gong_execute'' (echo_connector 7) ''calls'' ''list''
        (PDict [(''limit'', PInt 5)]) idle_world
     = (Inr (PList [PStr ''calls'', PStr ''list'', PDict [(''limit'', PInt 5)]]),
        \<lparr>remote = 1,
         calls = [(7, ''calls'', ''list'', PDict [(''limit'', PInt 5)])],
         runs = [RunStart ''gong_execute'', RunEnd ''gong_execute''],
         tracer_fault = None\<rparr>)"
    by (simp add: forwarded_def echo_connector_def idle_world_def)
  have hubspot:
    "forwarded ''hubspot_execute'' (echo_connector 8) ''contacts'' ''list'' (PDict []) idle_world
     = (Inr (PList [PStr ''contacts'', PStr ''list'', PDict []]),
        \<lparr>remote = 1,
         calls = [(8, ''contacts'', ''list'', PDict [])],
         runs = [RunStart ''hubspot_execute'', RunEnd ''hubspot_execute''],
         tracer_fault = None\<rparr>)"
    by (simp add: forwarded_def echo_connector_def idle_world_def)
  show ?thesis
    using up
      tool_forwards_arguments_and_result [OF up, of bare_agent "echo_connector 7" idle_world
        "''calls''" "''list''" "[(''limit'', PInt 5)]"]
      tool_forwards_arguments_and_result [OF up, of bare_agent "echo_connector 8" idle_world
        "''contacts''" "''list''"]
    by (simp only: gong hubspot simp_thms)
qed


section \<open>The system prompt\<close>

text \<open>
  C2. Whatever the text of \<^verbatim>\<open>system_prompt.txt\<close> is, the empty text included,
  \<^verbatim>\<open>_load_system_prompt\<close> returns that text with the surrounding whitespace trimmed, and
  this is the system prompt of the agent \<^verbatim>\<open>create_agent\<close> constructs. The file read is
  the one named \<^verbatim>\<open>system_prompt.txt\<close> in the directory of the module. The trimmed text
  is characterised twice: as \<open>strip\<close>, which follows \<^verbatim>\<open>str.strip()\<close>, and as the only
  text that \<open>is_trimmed_text\<close>, which follows the spec's words.
\<close>

theorem system_prompt_is_trimmed_file_text:
  "fs (prompt_path mf) = Some t \<Longrightarrow>
     load_system_prompt mf fs = Inr (strip t)
   \<and> (\<exists>a :: 'x agent. create_agent mf fs = Inr a \<and> agent_system_prompt a = strip t)
   \<and> is_trimmed_text t (strip t)
   \<and> (\<forall>r. is_trimmed_text t r \<longrightarrow> r = strip t)
   \<and> parent (prompt_path mf) = parent mf
   \<and> last (prompt_path mf) = ''system_prompt.txt''"
  by (simp add: load_system_prompt_def read_text_def create_agent_def Agent_def
      strip_is_trimmed trimmed_unique prompt_path_def parent_def joinpath_def)

theorem system_prompt_is_trimmed_file_text_witness:
  "fs_with_prompt [32, 10, 72, 105, 32, 33, 9, 10] (prompt_path module_file)
     = Some [32, 10, 72, 105, 32, 33, 9, 10]
   \<and> load_system_prompt module_file (fs_with_prompt [32, 10, 72, 105, 32, 33, 9, 10])
     = Inr [72, 105, 32, 33]
   \<and> fs_with_prompt [] (prompt_path module_file) = Some []
   \<and> load_system_prompt module_file (fs_with_prompt []) = Inr []
   \<and> prompt_path module_file = [''app'', ''src'', ''system_prompt.txt'']"
proof -
  have p: "prompt_path module_file = [''app'', ''src'', ''system_prompt.txt'']"
    by (simp add: prompt_path_def parent_def joinpath_def module_file_def)
  have full: "fs_with_prompt [32, 10, 72, 105, 32, 33, 9, 10] (prompt_path module_file)
                = Some [32, 10, 72, 105, 32, 33, 9, 10]"
    by (simp add: p fs_with_prompt_def)
  have empty: "fs_with_prompt [] (prompt_path module_file) = Some []"
    by (simp add: p fs_with_prompt_def)
  have s: "strip [32, 10, 72, 105, 32, 33, 9, 10] = [72, 105, 32, 33]"
    by (simp add: strip_def isspace_def)
  have s0: "strip [] = []"
    by (simp add: strip_def)
  have "load_system_prompt module_file (fs_with_prompt [32, 10, 72, 105, 32, 33, 9, 10])
          = Inr (strip [32, 10, 72, 105, 32, 33, 9, 10])"
    using system_prompt_is_trimmed_file_text
      [of "fs_with_prompt [32, 10, 72, 105, 32, 33, 9, 10]" module_file, OF full]
    by (rule conjunct1)
  moreover have "load_system_prompt module_file (fs_with_prompt []) = Inr (strip [])"
    using system_prompt_is_trimmed_file_text [of "fs_with_prompt []" module_file, OF empty]
    by (rule conjunct1)
  ultimately show ?thesis
    using p full empty by (simp only: s s0 simp_thms)
qed

text \<open>
  C4. When there is no file \<^verbatim>\<open>system_prompt.txt\<close> beside the module, \<^verbatim>\<open>create_agent\<close>
  raises (the FileNotFoundError of the read) and constructs no agent.
\<close>

theorem create_agent_fails_without_prompt_file:
  "fs (prompt_path mf) = None \<Longrightarrow>
     load_system_prompt mf fs = Inl (FileNotFoundError (prompt_path mf))
   \<and> (create_agent mf fs :: exn + 'x agent) = Inl (FileNotFoundError (prompt_path mf))
   \<and> (\<forall>a :: 'x agent. create_agent mf fs \<noteq> Inr a)"
  by (simp add: load_system_prompt_def read_text_def create_agent_def)

theorem create_agent_fails_without_prompt_file_witness:
  "fs_without_prompt (prompt_path module_file) = None
   \<and> (create_agent module_file fs_without_prompt :: exn + nat agent)
     = Inl (FileNotFoundError [''app'', ''src'', ''system_prompt.txt''])"
proof -
  have p: "prompt_path module_file = [''app'', ''src'', ''system_prompt.txt'']"
    by (simp add: prompt_path_def parent_def joinpath_def module_file_def)
  have absent: "fs_without_prompt (prompt_path module_file) = None"
    by (simp add: p fs_without_prompt_def)
  have "(create_agent module_file fs_without_prompt :: exn + nat agent)
          = Inl (FileNotFoundError (prompt_path module_file))"
    using create_agent_fails_without_prompt_file [of fs_without_prompt module_file, OF absent]
    by blast
  then show ?thesis
    using absent by (simp only: p simp_thms)
qed


section \<open>Failures\<close>

text \<open>
  C3. The wrappers and \<^verbatim>\<open>create_agent\<close> hand every failure on as it is. For every
  argument, of the declared types or not, the registered tool calls \<^verbatim>\<open>execute\<close> once and
  its outcome is the outcome of that call: an error \<^verbatim>\<open>execute\<close> raises is the error the
  tool raises, and the tool raises no error of its own (no validation, no translation, no
  recovery; the defaulting \<^verbatim>\<open>params or {}\<close> chooses an argument, never whether or how
  the call fails). When the tracing collector fails, the tool fails with the collector's
  error and the world is as before; when reading the prompt file fails,
  \<^verbatim>\<open>create_agent\<close> fails with the error of the read.
\<close>

theorem failures_propagate_unmodified:
  "(tracer_fault w = None \<longrightarrow>
      fst (invoke (registered_tool (register_gong_tools a c w0)) entity action arg w)
        = fst (execute_impl c entity action
                (py_or (case arg of None \<Rightarrow> PNone | Some v \<Rightarrow> v) (PDict [])) (remote w))
    \<and> fst (invoke (registered_tool (register_hubspot_tools a c w0)) entity action arg w)
        = fst (execute_impl c entity action
                (py_or (case arg of None \<Rightarrow> PNone | Some v \<Rightarrow> v) (PDict [])) (remote w))
    \<and> calls (snd (invoke (registered_tool (register_gong_tools a c w0)) entity action arg w))
        = calls w @ [(conn_id c, entity, action,
                      py_or (case arg of None \<Rightarrow> PNone | Some v \<Rightarrow> v) (PDict []))]
    \<and> calls (snd (invoke (registered_tool (register_hubspot_tools a c w0)) entity action arg w))
        = calls w @ [(conn_id c, entity, action,
                      py_or (case arg of None \<Rightarrow> PNone | Some v \<Rightarrow> v) (PDict []))])
   \<and> (tracer_fault w = None \<longrightarrow>
        fst (execute_impl c entity action
              (py_or (case arg of None \<Rightarrow> PNone | Some v \<Rightarrow> v) (PDict [])) (remote w)) = Inl e \<longrightarrow>
        fst (invoke (registered_tool (register_gong_tools a c w0)) entity action arg w) = Inl e
      \<and> fst (invoke (registered_tool (register_hubspot_tools a c w0)) entity action arg w) = Inl e)
   \<and> (tracer_fault w = Some e \<longrightarrow>
        invoke (registered_tool (register_gong_tools a c w0)) entity action arg w = (Inl e, w)
      \<and> invoke (registered_tool (register_hubspot_tools a c w0)) entity action arg w = (Inl e, w))
   \<and> (fst (execute_impl c entity action
              (py_or (case arg of None \<Rightarrow> PNone | Some v \<Rightarrow> v) (PDict [])) (remote w)) = Inl e \<longrightarrow>
        fst (fcall (gong_execute c) entity action arg w) = Inl e
      \<and> fst (fcall (hubspot_execute c) entity action arg w) = Inl e)
   \<and> (read_text fs (prompt_path mf) = Inl e \<longrightarrow>
        load_system_prompt mf fs = Inl e \<and> (create_agent mf fs :: exn + 'x agent) = Inl e)"
  by (simp add: invoke_gong invoke_hubspot forwarded_def gong_execute_def hubspot_execute_def
      execute_def load_system_prompt_def create_agent_def Let_def case_prod_beta)

theorem failures_propagate_unmodified_witness:
  "fst (invoke (registered_tool (register_gong_tools bare_agent (failing_connector 3) idle_world))
          ''calls'' ''list'' None idle_world) = Inl (ConnectorError ''calls'')
   \<and> invoke (registered_tool (register_hubspot_tools bare_agent (echo_connector 8) idle_world))
       ''contacts'' ''list'' None untraced_world
     = (Inl (TracingError ''unavailable''), untraced_world)
   \<and> (create_agent module_file fs_without_prompt :: exn + nat agent)
     = Inl (FileNotFoundError [''app'', ''src'', ''system_prompt.txt''])"
proof -
  have up: "tracer_fault idle_world = None"
    by (simp add: idle_world_def)
  have raised:
    "fst (execute_impl (failing_connector 3) ''calls'' ''list''
            (py_or (case None of None \<Rightarrow> PNone | Some v \<Rightarrow> v) (PDict [])) (remote idle_world))
       = Inl (ConnectorError ''calls'')"
    by (simp add: failing_connector_def)
  have down: "tracer_fault untraced_world = Some (TracingError ''unavailable'')"
    by (simp add: untraced_world_def)
  have absent:
    "read_text fs_without_prompt (prompt_path module_file)
       = Inl (FileNotFoundError [''app'', ''src'', ''system_prompt.txt''])"
    by (simp add: read_text_def fs_without_prompt_def prompt_path_def parent_def joinpath_def
        module_file_def)
  have "fst (invoke (registered_tool (register_gong_tools bare_agent (failing_connector 3)
          idle_world)) ''calls'' ''list'' None idle_world) = Inl (ConnectorError ''calls'')"
    using up raised
      failures_propagate_unmodified [of idle_world bare_agent "failing_connector 3" idle_world
        "''calls''" "''list''" None "ConnectorError ''calls''"]
    by blast
  moreover have
    "invoke (registered_tool (register_hubspot_tools bare_agent (echo_connector 8) idle_world))
       ''contacts'' ''list'' None untraced_world
     = (Inl (TracingError ''unavailable''), untraced_world)"
    using down
      failures_propagate_unmodified [of untraced_world bare_agent "echo_connector 8" idle_world
        "''contacts''" "''list''" None "TracingError ''unavailable''"]
    by blast
  moreover have
    "(create_agent module_file fs_without_prompt :: exn + nat agent)
       = Inl (FileNotFoundError [''app'', ''src'', ''system_prompt.txt''])"
    using absent
      failures_propagate_unmodified [of idle_world bare_agent "echo_connector 8" idle_world
        "''contacts''" "''list''" None "FileNotFoundError [''app'', ''src'', ''system_prompt.txt'']"
        fs_without_prompt module_file]
    by blast
  ultimately show ?thesis
    by (intro conjI)
qed


section \<open>Registration\<close>

text \<open>
  C5. Each of \<^verbatim>\<open>register_gong_tools\<close> and \<^verbatim>\<open>register_hubspot_tools\<close> puts exactly one tool
  on the agent it is given and changes nothing else of it. The tool has the parameters
  \<^verbatim>\<open>(entity: str, action: str, params: dict | None = None)\<close>, and calling it forwards
  to \<^verbatim>\<open>execute\<close> of the connector instance the registration was given (through the
  tracing wrapper, whose collector is taken to be available).
\<close>

theorem registration_adds_one_forwarding_tool:
  "fst (register_gong_tools a c w0)
     = a\<lparr>agent_tools := agent_tools a @ [registered_tool (register_gong_tools a c w0)]\<rparr>
   \<and> length (agent_tools (fst (register_gong_tools a c w0))) = Suc (length (agent_tools a))
   \<and> tool_name (registered_tool (register_gong_tools a c w0)) = ''gong_execute''
   \<and> tool_signature (registered_tool (register_gong_tools a c w0))
       = [(''entity'', AnnStr, None), (''action'', AnnStr, None),
          (''params'', AnnDictOrNone, Some PNone)]
   \<and> tool_function (registered_tool (register_gong_tools a c w0))
       = fcall (traceable ''gong_execute'' (gong_execute c))
   \<and> fst (register_hubspot_tools a c w0)
       = a\<lparr>agent_tools := agent_tools a @ [registered_tool (register_hubspot_tools a c w0)]\<rparr>
   \<and> length (agent_tools (fst (register_hubspot_tools a c w0))) = Suc (length (agent_tools a))
   \<and> tool_name (registered_tool (register_hubspot_tools a c w0)) = ''hubspot_execute''
   \<and> tool_signature (registered_tool (register_hubspot_tools a c w0))
       = [(''entity'', AnnStr, None), (''action'', AnnStr, None),
          (''params'', AnnDictOrNone, Some PNone)]
   \<and> tool_function (registered_tool (register_hubspot_tools a c w0))
       = fcall (traceable ''hubspot_execute'' (hubspot_execute c))
   \<and> (tracer_fault w = None \<longrightarrow>
        invoke (registered_tool (register_gong_tools a c w0)) entity action arg w
          = forwarded ''gong_execute'' c entity action
              (py_or (case arg of None \<Rightarrow> PNone | Some v \<Rightarrow> v) (PDict [])) w
      \<and> invoke (registered_tool (register_hubspot_tools a c w0)) entity action arg w
          = forwarded ''hubspot_execute'' c entity action
              (py_or (case arg of None \<Rightarrow> PNone | Some v \<Rightarrow> v) (PDict [])) w)"
proof (intro conjI impI)
  show "fst (register_gong_tools a c w0)
          = a\<lparr>agent_tools := agent_tools a @ [registered_tool (register_gong_tools a c w0)]\<rparr>"
    using register_gong_appends [of a c w0] by (metis fst_conv)
  show "fst (register_hubspot_tools a c w0)
          = a\<lparr>agent_tools := agent_tools a @ [registered_tool (register_hubspot_tools a c w0)]\<rparr>"
    using register_hubspot_appends [of a c w0] by (metis fst_conv)
  show "length (agent_tools (fst (register_gong_tools a c w0))) = Suc (length (agent_tools a))"
    by (simp add: register_gong_tools_def tool_plain_def)
  show "length (agent_tools (fst (register_hubspot_tools a c w0))) = Suc (length (agent_tools a))"
    by (simp add: register_hubspot_tools_def tool_plain_def)
  assume "tracer_fault w = None"
  then show "invoke (registered_tool (register_gong_tools a c w0)) entity action arg w
          = forwarded ''gong_execute'' c entity action
              (py_or (case arg of None \<Rightarrow> PNone | Some v \<Rightarrow> v) (PDict [])) w"
    by (simp add: invoke_gong)
  assume "tracer_fault w = None"
  then show "invoke (registered_tool (register_hubspot_tools a c w0)) entity action arg w
          = forwarded ''hubspot_execute'' c entity action
              (py_or (case arg of None \<Rightarrow> PNone | Some v \<Rightarrow> v) (PDict [])) w"
    by (simp add: invoke_hubspot)
qed (simp_all add: registered_gong_tool registered_hubspot_tool execute_signature_def)

theorem registration_adds_one_forwarding_tool_witness:
  "map tool_name (agent_tools (fst (register_gong_tools bare_agent (echo_connector 7) idle_world)))
     = [''gong_execute'']
   \<and> map tool_name (agent_tools (fst (register_hubspot_tools
        (fst (register_gong_tools bare_agent (echo_connector 7) idle_world))
        (echo_connector 8) idle_world)))
     = [''gong_execute'', ''hubspot_execute'']
   \<and> tracer_fault idle_world = None
   \<and> invoke (registered_tool (register_hubspot_tools
        (fst (register_gong_tools bare_agent (echo_connector 7) idle_world))
        (echo_connector 8) idle_world)) ''deals'' ''get'' (Some (PDict [(''id'', PStr ''42'')]))
        idle_world
     = (Inr (PList [PStr ''deals'', PStr ''get'', PDict [(''id'', PStr ''42'')]]),
        \<lparr>remote = 1,
         calls = [(8, ''deals'', ''get'', PDict [(''id'', PStr ''42'')])],
         runs = [RunStart ''hubspot_execute'', RunEnd ''hubspot_execute''],
         tracer_fault = None\<rparr>)"
proof -
  let ?a1 = "fst (register_gong_tools bare_agent (echo_connector 7) idle_world)"
  note gong = registration_adds_one_forwarding_tool
    [of bare_agent "echo_connector 7" idle_world idle_world]
  note hubspot = registration_adds_one_forwarding_tool
    [of ?a1 "echo_connector 8" idle_world idle_world "''deals''" "''get''"
      "Some (PDict [(''id'', PStr ''42'')])"]
  have up: "tracer_fault idle_world = None"
    by (simp add: idle_world_def)
  have none: "agent_tools bare_agent = []"
    by (simp add: bare_agent_def Agent_def)
  have a1: "?a1 = bare_agent\<lparr>agent_tools := agent_tools bare_agent
              @ [registered_tool (register_gong_tools bare_agent (echo_connector 7) idle_world)]\<rparr>"
    using gong by (rule conjunct1)
  have n1: "tool_name (registered_tool (register_gong_tools bare_agent (echo_connector 7)
              idle_world)) = ''gong_execute''"
    using gong by blast
  have first: "map tool_name (agent_tools ?a1) = [''gong_execute'']"
    by (subst a1) (simp add: none n1)
  have a2: "fst (register_hubspot_tools ?a1 (echo_connector 8) idle_world)
              = ?a1\<lparr>agent_tools := agent_tools ?a1
                  @ [registered_tool (register_hubspot_tools ?a1 (echo_connector 8) idle_world)]\<rparr>"
    using hubspot by blast
  have n2: "tool_name (registered_tool (register_hubspot_tools ?a1 (echo_connector 8)
              idle_world)) = ''hubspot_execute''"
    using hubspot by blast
  have second: "map tool_name (agent_tools (fst (register_hubspot_tools ?a1 (echo_connector 8)
              idle_world))) = [''gong_execute'', ''hubspot_execute'']"
    by (subst a2) (simp add: first n2)
  have call: "invoke (registered_tool (register_hubspot_tools ?a1 (echo_connector 8) idle_world))
                ''deals'' ''get'' (Some (PDict [(''id'', PStr ''42'')])) idle_world
              = forwarded ''hubspot_execute'' (echo_connector 8) ''deals'' ''get''
                  (py_or (case Some (PDict [(''id'', PStr ''42'')]) of None \<Rightarrow> PNone | Some v \<Rightarrow> v)
                     (PDict [])) idle_world"
    using hubspot up by blast
  have val: "forwarded ''hubspot_execute'' (echo_connector 8) ''deals'' ''get''
                  (py_or (case Some (PDict [(''id'', PStr ''42'')]) of None \<Rightarrow> PNone | Some v \<Rightarrow> v)
                     (PDict [])) idle_world
             = (Inr (PList [PStr ''deals'', PStr ''get'', PDict [(''id'', PStr ''42'')]]),
                \<lparr>remote = 1,
                 calls = [(8, ''deals'', ''get'', PDict [(''id'', PStr ''42'')])],
                 runs = [RunStart ''hubspot_execute'', RunEnd ''hubspot_execute''],
                 tracer_fault = None\<rparr>)"
    by (simp add: forwarded_def echo_connector_def idle_world_def py_or_def)
  show ?thesis
    using first second up call val by (simp only: simp_thms)
qed


text \<open>
  C9. Registering calls no connector: \<^verbatim>\<open>register_gong_tools\<close> and
  \<^verbatim>\<open>register_hubspot_tools\<close> leave the world as it was (the call log, the remote state
  and the tracing runs) and only put the wrapped function on the agent. The first call
  of \<^verbatim>\<open>execute\<close> is made when the registered tool is invoked.
\<close>

theorem registration_calls_no_connector:
  "snd (register_gong_tools a c w) = w
   \<and> calls (snd (register_gong_tools a c w)) = calls w
   \<and> remote (snd (register_gong_tools a c w)) = remote w
   \<and> runs (snd (register_gong_tools a c w)) = runs w
   \<and> fst (register_gong_tools a c w)
       = a\<lparr>agent_tools := agent_tools a @ [registered_tool (register_gong_tools a c w)]\<rparr>
   \<and> snd (register_hubspot_tools a c w) = w
   \<and> calls (snd (register_hubspot_tools a c w)) = calls w
   \<and> remote (snd (register_hubspot_tools a c w)) = remote w
   \<and> runs (snd (register_hubspot_tools a c w)) = runs w
   \<and> fst (register_hubspot_tools a c w)
       = a\<lparr>agent_tools := agent_tools a @ [registered_tool (register_hubspot_tools a c w)]\<rparr>
   \<and> (tracer_fault w = None \<longrightarrow>
        calls (snd (invoke (registered_tool (register_gong_tools a c w)) entity action arg
                 (snd (register_gong_tools a c w))))
          = calls w @ [(conn_id c, entity, action,
                        py_or (case arg of None \<Rightarrow> PNone | Some v \<Rightarrow> v) (PDict []))]
      \<and> calls (snd (invoke (registered_tool (register_hubspot_tools a c w)) entity action arg
                 (snd (register_hubspot_tools a c w))))
          = calls w @ [(conn_id c, entity, action,
                        py_or (case arg of None \<Rightarrow> PNone | Some v \<Rightarrow> v) (PDict []))])"
proof -
  have g: "snd (register_gong_tools a c w) = w"
    by (simp add: register_gong_tools_def)
  have h: "snd (register_hubspot_tools a c w) = w"
    by (simp add: register_hubspot_tools_def)
  have ga: "fst (register_gong_tools a c w)
       = a\<lparr>agent_tools := agent_tools a @ [registered_tool (register_gong_tools a c w)]\<rparr>"
    using register_gong_appends [of a c w] by (metis fst_conv)
  have ha: "fst (register_hubspot_tools a c w)
       = a\<lparr>agent_tools := agent_tools a @ [registered_tool (register_hubspot_tools a c w)]\<rparr>"
    using register_hubspot_appends [of a c w] by (metis fst_conv)
  have "tracer_fault w = None \<Longrightarrow>
        calls (snd (invoke (registered_tool (register_gong_tools a c w)) entity action arg w))
          = calls w @ [(conn_id c, entity, action,
                        py_or (case arg of None \<Rightarrow> PNone | Some v \<Rightarrow> v) (PDict []))]"
    by (simp add: invoke_gong forwarded_def)
  moreover have "tracer_fault w = None \<Longrightarrow>
        calls (snd (invoke (registered_tool (register_hubspot_tools a c w)) entity action arg w))
          = calls w @ [(conn_id c, entity, action,
                        py_or (case arg of None \<Rightarrow> PNone | Some v \<Rightarrow> v) (PDict []))]"
    by (simp add: invoke_hubspot forwarded_def)
  ultimately show ?thesis
    using ga ha unfolding g h by blast
qed

theorem registration_calls_no_connector_witness:
  "calls (snd (register_gong_tools bare_agent (echo_connector 7) idle_world)) = []
   \<and> remote (snd (register_gong_tools bare_agent (echo_connector 7) idle_world)) = 0
   \<and> tracer_fault idle_world = None
   \<and> calls (snd (invoke (registered_tool (register_gong_tools bare_agent (echo_connector 7)
         idle_world)) ''calls'' ''list'' None
         (snd (register_gong_tools bare_agent (echo_connector 7) idle_world))))
     = [(7, ''calls'', ''list'', PDict [])]"
proof -
  note t = registration_calls_no_connector
    [of bare_agent "echo_connector 7" idle_world "''calls''" "''list''" None]
  have up: "tracer_fault idle_world = None"
    by (simp add: idle_world_def)
  have c0: "calls idle_world = []" and r0: "remote idle_world = 0"
    by (simp_all add: idle_world_def)
  have cid: "conn_id (echo_connector 7) = 7"
    by (simp add: echo_connector_def)
  have p: "py_or (case None of None \<Rightarrow> PNone | Some v \<Rightarrow> v) (PDict []) = PDict []"
    by (simp add: py_or_def)
  have "calls (snd (register_gong_tools bare_agent (echo_connector 7) idle_world))
          = calls idle_world"
    using t by blast
  moreover have "remote (snd (register_gong_tools bare_agent (echo_connector 7) idle_world))
          = remote idle_world"
    using t by blast
  moreover have "calls (snd (invoke (registered_tool (register_gong_tools bare_agent
         (echo_connector 7) idle_world)) ''calls'' ''list'' None
         (snd (register_gong_tools bare_agent (echo_connector 7) idle_world))))
     = calls idle_world @ [(conn_id (echo_connector 7), ''calls'', ''list'',
         py_or (case None of None \<Rightarrow> PNone | Some v \<Rightarrow> v) (PDict []))]"
    using t up by blast
  ultimately show ?thesis
    using up by (simp only: c0 r0 cid p append_Nil simp_thms)
qed

section \<open>The retry budget\<close>

text \<open>
  C6. \<^verbatim>\<open>create_agent\<close> gives the agent's constructor \<^verbatim>\<open>retries=10\<close>, and that is all
  this code configures about failures: the agent it returns is the one the constructor
  builds from the model, the two connector types, the prompt and the number 10; a
  registration leaves the agent's budget alone and gives the tool none of its own; and a
  tool call is one call of \<^verbatim>\<open>execute\<close>, whether it fails or not.
\<close>

theorem retry_budget_is_ten:
  "(create_agent mf fs = Inr a \<longrightarrow>
      agent_retries a = 10
    \<and> a = Agent (AnthropicModel ''claude-sonnet-4-5-20250929'')
            [GongConnector, HubspotConnector] (agent_system_prompt a) 10
    \<and> agent_tools a = [])
   \<and> agent_retries (fst (register_gong_tools b c w0)) = agent_retries b
   \<and> agent_retries (fst (register_hubspot_tools b c w0)) = agent_retries b
   \<and> tool_retries (registered_tool (register_gong_tools b c w0)) = None
   \<and> tool_retries (registered_tool (register_hubspot_tools b c w0)) = None
   \<and> (tracer_fault w = None \<longrightarrow>
        length (calls (snd (invoke (registered_tool (register_gong_tools b c w0))
                  entity action arg w))) = Suc (length (calls w))
      \<and> length (calls (snd (invoke (registered_tool (register_hubspot_tools b c w0))
                  entity action arg w))) = Suc (length (calls w)))"
proof (intro conjI impI)
  assume "create_agent mf fs = Inr a"
  then have a: "a = Agent (AnthropicModel ''claude-sonnet-4-5-20250929'')
            [GongConnector, HubspotConnector] (agent_system_prompt a) 10"
    by (auto simp: create_agent_def Agent_def split: sum.splits)
  then show "a = Agent (AnthropicModel ''claude-sonnet-4-5-20250929'')
            [GongConnector, HubspotConnector] (agent_system_prompt a) 10" .
  show "agent_retries a = 10"
    by (subst a) (simp add: Agent_def)
  show "agent_tools a = []"
    by (subst a) (simp add: Agent_def)
next
  show "agent_retries (fst (register_gong_tools b c w0)) = agent_retries b"
    by (simp add: register_gong_tools_def tool_plain_def)
  show "agent_retries (fst (register_hubspot_tools b c w0)) = agent_retries b"
    by (simp add: register_hubspot_tools_def tool_plain_def)
  show "tool_retries (registered_tool (register_gong_tools b c w0)) = None"
    by (simp add: registered_gong_tool)
  show "tool_retries (registered_tool (register_hubspot_tools b c w0)) = None"
    by (simp add: registered_hubspot_tool)
next
  assume "tracer_fault w = None"
  then show "length (calls (snd (invoke (registered_tool (register_gong_tools b c w0))
                  entity action arg w))) = Suc (length (calls w))"
    by (simp add: invoke_gong forwarded_def)
next
  assume "tracer_fault w = None"
  then show "length (calls (snd (invoke (registered_tool (register_hubspot_tools b c w0))
                  entity action arg w))) = Suc (length (calls w))"
    by (simp add: invoke_hubspot forwarded_def)
qed

theorem retry_budget_is_ten_witness:
  "create_agent module_file (fs_with_prompt [32, 72, 105, 10]) = Inr bare_agent
   \<and> agent_retries bare_agent = 10
   \<and> tracer_fault idle_world = None
   \<and> length (calls (snd (invoke (registered_tool (register_gong_tools bare_agent
        (failing_connector 3) idle_world)) ''calls'' ''list'' None idle_world))) = 1"
proof -
  note t = retry_budget_is_ten
    [of module_file "fs_with_prompt [32, 72, 105, 10]" bare_agent bare_agent
      "failing_connector 3" idle_world idle_world "''calls''" "''list''" None]
  have made: "create_agent module_file (fs_with_prompt [32, 72, 105, 10]) = Inr bare_agent"
    by (simp add: create_agent_def load_system_prompt_def read_text_def prompt_path_def
        parent_def joinpath_def module_file_def fs_with_prompt_def strip_def isspace_def
        bare_agent_def)
  have up: "tracer_fault idle_world = None"
    by (simp add: idle_world_def)
  have c0: "Suc (length (calls idle_world)) = 1"
    by (simp add: idle_world_def)
  have "agent_retries bare_agent = 10"
    using t made by blast
  moreover have "length (calls (snd (invoke (registered_tool (register_gong_tools bare_agent
        (failing_connector 3) idle_world)) ''calls'' ''list'' None idle_world)))
        = Suc (length (calls idle_world))"
    using t up by blast
  ultimately show ?thesis
    using made up by (simp only: c0 simp_thms)
qed


section \<open>Explicit None\<close>

text \<open>
  C8. When the caller passes \<^verbatim>\<open>params=None\<close> explicitly, the tool forwards the empty
  mapping, as it does when \<^verbatim>\<open>params\<close> is omitted; and whatever the caller passes, the
  argument \<^verbatim>\<open>execute\<close> receives from these wrappers is never \<^verbatim>\<open>None\<close>.
\<close>

theorem explicit_none_forwards_empty_mapping:
  "tracer_fault w = None \<Longrightarrow>
     invoke (registered_tool (register_gong_tools a c w0)) entity action (Some PNone) w
       = forwarded ''gong_execute'' c entity action (PDict []) w
   \<and> invoke (registered_tool (register_hubspot_tools a c w0)) entity action (Some PNone) w
       = forwarded ''hubspot_execute'' c entity action (PDict []) w
   \<and> fcall (gong_execute c) entity action (Some PNone) w
       = execute c entity action (PDict []) w
   \<and> fcall (hubspot_execute c) entity action (Some PNone) w
       = execute c entity action (PDict []) w
   \<and> snd (snd (snd (last (calls (snd
         (invoke (registered_tool (register_gong_tools a c w0)) entity action arg w))))))
       \<noteq> PNone
   \<and> snd (snd (snd (last (calls (snd
         (invoke (registered_tool (register_hubspot_tools a c w0)) entity action arg w))))))
       \<noteq> PNone
   \<and> snd (snd (snd (last (calls (snd (fcall (gong_execute c) entity action arg w))))))
       \<noteq> PNone
   \<and> snd (snd (snd (last (calls (snd (fcall (hubspot_execute c) entity action arg w))))))
       \<noteq> PNone"
  by (simp add: invoke_gong invoke_hubspot forwarded_def py_or_none py_or_not_none
      gong_execute_def hubspot_execute_def execute_def Let_def case_prod_beta)

theorem explicit_none_forwards_empty_mapping_witness:
  "tracer_fault idle_world = None
   \<and> invoke (registered_tool (register_gong_tools bare_agent (echo_connector 7) idle_world))
       ''calls'' ''list'' (Some PNone) idle_world
     = (Inr (PList [PStr ''calls'', PStr ''list'', PDict []]),
        \<lparr>remote = 1,
         calls = [(7, ''calls'', ''list'', PDict [])],
         runs = [RunStart ''gong_execute'', RunEnd ''gong_execute''],
         tracer_fault = None\<rparr>)"
proof -
  have up: "tracer_fault idle_world = None"
    by (simp add: idle_world_def)
  have val:
    "forwarded ''gong_execute'' (echo_connector 7) ''calls'' ''list'' (PDict []) idle_world
     = (Inr (PList [PStr ''calls'', PStr ''list'', PDict []]),
        \<lparr>remote = 1,
         calls = [(7, ''calls'', ''list'', PDict [])],
         runs = [RunStart ''gong_execute'', RunEnd ''gong_execute''],
         tracer_fault = None\<rparr>)"
    by (simp add: forwarded_def echo_connector_def idle_world_def)
  have "invoke (registered_tool (register_gong_tools bare_agent (echo_connector 7) idle_world))
       ''calls'' ''list'' (Some PNone) idle_world
     = forwarded ''gong_execute'' (echo_connector 7) ''calls'' ''list'' (PDict []) idle_world"
    using explicit_none_forwards_empty_mapping
      [OF up, of bare_agent "echo_connector 7" idle_world "''calls''" "''list''"]
    by (rule conjunct1)
  then show ?thesis
    using up by (simp only: val simp_thms)
qed

section \<open>Two registrations\<close>

text \<open>
  C7. Registering twice for the same connector type, with connectors \<open>c1\<close> and \<open>c2\<close>,
  leaves two entry points on the agent. Each is the tool its own registration made: it
  is determined by its own connector alone (the same tool comes out of registering that
  connector on any agent in any world, so the other registration has no part in it).
  Invoking the first calls \<open>c1\<close>, invoking the second calls \<open>c2\<close>, and invoking one after
  the other, in either order, logs one call to each connector: nothing of one
  registration is carried into the other.
\<close>

theorem registrations_are_independent:
  "s1 = register_gong_tools a c1 w0 \<Longrightarrow> s2 = register_gong_tools (fst s1) c2 (snd s1) \<Longrightarrow>
   h1 = register_hubspot_tools a c1 w0 \<Longrightarrow> h2 = register_hubspot_tools (fst h1) c2 (snd h1) \<Longrightarrow>
   p1 = py_or (case arg1 of None \<Rightarrow> PNone | Some v \<Rightarrow> v) (PDict []) \<Longrightarrow>
   p2 = py_or (case arg2 of None \<Rightarrow> PNone | Some v \<Rightarrow> v) (PDict []) \<Longrightarrow>
     agent_tools (fst s2) = agent_tools a @ [registered_tool s1, registered_tool s2]
   \<and> agent_tools (fst h2) = agent_tools a @ [registered_tool h1, registered_tool h2]
   \<and> registered_tool s1 = registered_tool (register_gong_tools a' c1 w0')
   \<and> registered_tool s2 = registered_tool (register_gong_tools a' c2 w0')
   \<and> registered_tool h1 = registered_tool (register_hubspot_tools a' c1 w0')
   \<and> registered_tool h2 = registered_tool (register_hubspot_tools a' c2 w0')
   \<and> (tracer_fault w = None \<longrightarrow>
        invoke (registered_tool s1) e1 act1 arg1 w = forwarded ''gong_execute'' c1 e1 act1 p1 w
      \<and> invoke (registered_tool s2) e2 act2 arg2 w = forwarded ''gong_execute'' c2 e2 act2 p2 w
      \<and> invoke (registered_tool h1) e1 act1 arg1 w = forwarded ''hubspot_execute'' c1 e1 act1 p1 w
      \<and> invoke (registered_tool h2) e2 act2 arg2 w = forwarded ''hubspot_execute'' c2 e2 act2 p2 w
      \<and> calls (snd (invoke (registered_tool s2) e2 act2 arg2
                 (snd (invoke (registered_tool s1) e1 act1 arg1 w))))
          = calls w @ [(conn_id c1, e1, act1, p1), (conn_id c2, e2, act2, p2)]
      \<and> calls (snd (invoke (registered_tool s1) e1 act1 arg1
                 (snd (invoke (registered_tool s2) e2 act2 arg2 w))))
          = calls w @ [(conn_id c2, e2, act2, p2), (conn_id c1, e1, act1, p1)]
      \<and> calls (snd (invoke (registered_tool h2) e2 act2 arg2
                 (snd (invoke (registered_tool h1) e1 act1 arg1 w))))
          = calls w @ [(conn_id c1, e1, act1, p1), (conn_id c2, e2, act2, p2)]
      \<and> calls (snd (invoke (registered_tool h1) e1 act1 arg1
                 (snd (invoke (registered_tool h2) e2 act2 arg2 w))))
          = calls w @ [(conn_id c2, e2, act2, p2), (conn_id c1, e1, act1, p1)])"
proof -
  assume s1: "s1 = register_gong_tools a c1 w0"
    and s2: "s2 = register_gong_tools (fst s1) c2 (snd s1)"
    and h1: "h1 = register_hubspot_tools a c1 w0"
    and h2: "h2 = register_hubspot_tools (fst h1) c2 (snd h1)"
    and p1: "p1 = py_or (case arg1 of None \<Rightarrow> PNone | Some v \<Rightarrow> v) (PDict [])"
    and p2: "p2 = py_or (case arg2 of None \<Rightarrow> PNone | Some v \<Rightarrow> v) (PDict [])"
  have gong_any: "registered_tool (register_gong_tools x c y)
      = registered_tool (register_gong_tools a' c w0')" for x y and c :: "'a connector"
    by (simp add: registered_gong_tool)
  have hubspot_any: "registered_tool (register_hubspot_tools x c y)
      = registered_tool (register_hubspot_tools a' c w0')" for x y and c :: "'a connector"
    by (simp add: registered_hubspot_tool)
  have two_gong: "agent_tools (fst s2) = agent_tools a @ [registered_tool s1, registered_tool s2]"
    unfolding s2 s1 by (simp add: registered_tool_def register_gong_tools_def tool_plain_def)
  have two_hubspot:
    "agent_tools (fst h2) = agent_tools a @ [registered_tool h1, registered_tool h2]"
    unfolding h2 h1 by (simp add: registered_tool_def register_hubspot_tools_def tool_plain_def)
  have calls_gong: "tracer_fault w = None \<Longrightarrow>
      invoke (registered_tool s1) e1 act1 arg1 w = forwarded ''gong_execute'' c1 e1 act1 p1 w
      \<and> invoke (registered_tool s2) e2 act2 arg2 w = forwarded ''gong_execute'' c2 e2 act2 p2 w
      \<and> calls (snd (invoke (registered_tool s2) e2 act2 arg2
                 (snd (invoke (registered_tool s1) e1 act1 arg1 w))))
          = calls w @ [(conn_id c1, e1, act1, p1), (conn_id c2, e2, act2, p2)]
      \<and> calls (snd (invoke (registered_tool s1) e1 act1 arg1
                 (snd (invoke (registered_tool s2) e2 act2 arg2 w))))
          = calls w @ [(conn_id c2, e2, act2, p2), (conn_id c1, e1, act1, p1)]"
    unfolding s2 s1 p1 p2 by (simp add: invoke_gong forwarded_def)
  have calls_hubspot: "tracer_fault w = None \<Longrightarrow>
      invoke (registered_tool h1) e1 act1 arg1 w = forwarded ''hubspot_execute'' c1 e1 act1 p1 w
      \<and> invoke (registered_tool h2) e2 act2 arg2 w = forwarded ''hubspot_execute'' c2 e2 act2 p2 w
      \<and> calls (snd (invoke (registered_tool h2) e2 act2 arg2
                 (snd (invoke (registered_tool h1) e1 act1 arg1 w))))
          = calls w @ [(conn_id c1, e1, act1, p1), (conn_id c2, e2, act2, p2)]
      \<and> calls (snd (invoke (registered_tool h1) e1 act1 arg1
                 (snd (invoke (registered_tool h2) e2 act2 arg2 w))))
          = calls w @ [(conn_id c2, e2, act2, p2), (conn_id c1, e1, act1, p1)]"
    unfolding h2 h1 p1 p2 by (simp add: invoke_hubspot forwarded_def)
  show ?thesis
    using two_gong two_hubspot calls_gong calls_hubspot
      gong_any [of a c1 w0] gong_any [of "fst s1" c2 "snd s1"]
      hubspot_any [of a c1 w0] hubspot_any [of "fst h1" c2 "snd h1"]
    unfolding s1 [symmetric] s2 [symmetric] h1 [symmetric] h2 [symmetric]
    by blast
qed


theorem registrations_are_independent_witness:
  "(let s1 = register_gong_tools bare_agent (echo_connector 1) idle_world;
        s2 = register_gong_tools (fst s1) (failing_connector 2) (snd s1)
    in map tool_name (agent_tools (fst s2)) = [''gong_execute'', ''gong_execute'']
     \<and> calls (snd (invoke (registered_tool s2) ''users'' ''list'' None
          (snd (invoke (registered_tool s1) ''calls'' ''get'' (Some (PDict [(''id'', PInt 1)]))
             idle_world))))
       = [(1, ''calls'', ''get'', PDict [(''id'', PInt 1)]), (2, ''users'', ''list'', PDict [])]
     \<and> fst (invoke (registered_tool s1) ''calls'' ''get'' (Some (PDict [(''id'', PInt 1)]))
          (snd (invoke (registered_tool s2) ''users'' ''list'' None idle_world)))
       = Inr (PList [PStr ''calls'', PStr ''get'', PDict [(''id'', PInt 1)]]))"
proof -
  define s1 where "s1 = register_gong_tools bare_agent (echo_connector 1) idle_world"
  define s2 where "s2 = register_gong_tools (fst s1) (failing_connector 2) (snd s1)"
  define h1 where "h1 = register_hubspot_tools bare_agent (echo_connector 1) idle_world"
  define h2 where "h2 = register_hubspot_tools (fst h1) (failing_connector 2) (snd h1)"
  note t = registrations_are_independent
    [OF s1_def s2_def h1_def h2_def refl refl,
      where w = idle_world and ?arg1.0 = "Some (PDict [(''id'', PInt 1)])" and ?arg2.0 = None
        and ?e1.0 = "''calls''" and ?act1.0 = "''get''" and ?e2.0 = "''users''"
        and ?act2.0 = "''list''"]
  have up: "tracer_fault idle_world = None"
    by (simp add: idle_world_def)
  have none: "agent_tools bare_agent = []"
    by (simp add: bare_agent_def Agent_def)
  have n1: "tool_name (registered_tool s1) = ''gong_execute''"
    unfolding s1_def by (simp add: registered_gong_tool)
  have n2: "tool_name (registered_tool s2) = ''gong_execute''"
    unfolding s2_def by (simp add: registered_gong_tool)
  have "agent_tools (fst s2) = agent_tools bare_agent @ [registered_tool s1, registered_tool s2]"
    using t by blast
  then have names: "map tool_name (agent_tools (fst s2)) = [''gong_execute'', ''gong_execute'']"
    by (simp add: none n1 n2)
  have "calls (snd (invoke (registered_tool s2) ''users'' ''list'' None
          (snd (invoke (registered_tool s1) ''calls'' ''get'' (Some (PDict [(''id'', PInt 1)]))
             idle_world))))
       = calls idle_world @
          [(conn_id (echo_connector 1), ''calls'', ''get'',
            py_or (case Some (PDict [(''id'', PInt 1)]) of None \<Rightarrow> PNone | Some v \<Rightarrow> v) (PDict [])),
           (conn_id (failing_connector 2), ''users'', ''list'',
            py_or (case None of None \<Rightarrow> PNone | Some v \<Rightarrow> v) (PDict []))]"
    using t up by blast
  then have log: "calls (snd (invoke (registered_tool s2) ''users'' ''list'' None
          (snd (invoke (registered_tool s1) ''calls'' ''get'' (Some (PDict [(''id'', PInt 1)]))
             idle_world))))
       = [(1, ''calls'', ''get'', PDict [(''id'', PInt 1)]), (2, ''users'', ''list'', PDict [])]"
    by (simp add: idle_world_def echo_connector_def failing_connector_def py_or_def)
  have second: "invoke (registered_tool s2) ''users'' ''list'' None idle_world
       = forwarded ''gong_execute'' (failing_connector 2) ''users'' ''list''
           (py_or (case None of None \<Rightarrow> PNone | Some v \<Rightarrow> v) (PDict [])) idle_world"
    using t up by blast
  have up': "tracer_fault (snd (invoke (registered_tool s2) ''users'' ''list'' None idle_world))
       = None"
    by (subst second) (simp add: forwarded_def idle_world_def)
  have "registered_tool s1 = registered_tool (register_gong_tools bare_agent (echo_connector 1)
          idle_world)"
    by (simp add: s1_def)
  then have "fst (invoke (registered_tool s1) ''calls'' ''get'' (Some (PDict [(''id'', PInt 1)]))
          (snd (invoke (registered_tool s2) ''users'' ''list'' None idle_world)))
       = Inr (PList [PStr ''calls'', PStr ''get'', PDict [(''id'', PInt 1)]])"
    using up' by (simp add: invoke_gong forwarded_def echo_connector_def py_or_def)
  then show ?thesis
    using names log unfolding Let_def s1_def [symmetric] s2_def [symmetric] by blast
qed


end
